theory Spec2Isabelle
  imports Complex_Main "HOL-Library.Sublist" "HOL-Library.Multiset"
begin

section \<open>Product backend: create and list routes of index.js\<close>

text \<open>
  The program wires a web framework, a multipart upload middleware, a media service
  client and a document database into two routes. The model keeps what index.js
  itself decides: the upload configuration (field name, size limit, file filter), the
  product schema, the two route handlers with their \<open>catch\<close> branches, and the error
  handler. What the libraries compute and this file cannot see is a parameter
  (\<open>runtime\<close>) or an input of the request (\<open>create_io\<close>, \<open>list_io\<close>): the answer of
  the media service, the answer of the database, the clock.

  Scope of the model: \<open>req.body\<close> has been parsed into an object whose fields are
  texts, each field occurring at most once; reading the nested \<open>image\<close> of a document
  gives its three fields.
\<close>

subsection \<open>Values of the JavaScript runtime and of the libraries\<close>

text \<open>
  A JavaScript number: \<open>NaN\<close>, the two infinities, or a finite value. The schema casts
  the text of the price field with the runtime's string-to-number conversion, which is
  not part of index.js and is a field of \<open>runtime\<close>.
\<close>

datatype jsnum = NaN | NegInf | Num real | PosInf

fun num_ge0 :: "jsnum \<Rightarrow> bool" where
  "num_ge0 NaN = False"
| "num_ge0 NegInf = False"
| "num_ge0 (Num r) = (0 \<le> r)"
| "num_ge0 PosInf = True"

text \<open>
  A number as \<open>res.json\<close> sends it: JSON has no infinity and no \<open>NaN\<close>, and the
  serialisation writes \<open>null\<close> for them.
\<close>

datatype json_num = JNull | JNumber real

fun json_price :: "jsnum \<Rightarrow> json_num" where
  "json_price (Num r) = JNumber r"
| "json_price NaN = JNull"
| "json_price NegInf = JNull"
| "json_price PosInf = JNull"

text \<open>The options object given to \<open>cloudinary.url\<close> (lines 118-121 and 142-145).\<close>

record url_options =
  fetch_format :: string
  quality :: string

text \<open>
  \<open>cloudinary_url\<close> is \<open>cloudinary.url\<close> under the configuration of lines 22-26,
  \<open>None\<close> when the call throws; \<open>js_Number\<close> is the conversion of a text to a number;
  \<open>js_trim\<close> is \<open>String.prototype.trim\<close>; \<open>limit_on_reach\<close> says whether the
  multipart parser reports the size limit when the file reaches it or only when it passes
  it (releases of the parser differ on a file of exactly the limit).
\<close>

record runtime =
  cloudinary_url :: "string \<Rightarrow> url_options \<Rightarrow> string option"
  js_Number :: "string \<Rightarrow> jsnum"
  js_trim :: "string \<Rightarrow> string"
  limit_on_reach :: bool

text \<open>
  An error object: a \<open>MulterError\<close> with its code and message, or any other
  \<open>Error\<close> with its message.
\<close>

datatype js_error = MulterError string string | Error string

subsection \<open>Requests, responses and the state\<close>

text \<open>The file part of a multipart request, as the upload middleware sees it.\<close>

record upfile =
  fieldname :: string
  mimetype :: string
  size_bytes :: nat

text \<open>
  What the storage engine puts on \<open>req.file\<close> after a successful upload:
  \<open>filename\<close> is the public identifier, \<open>path\<close> the storage URL.
\<close>

record cloud_file =
  filename :: string
  path :: string

text \<open>
  \<open>req.body\<close> is an object from field names to texts. A create request has it and at
  most one file part.
\<close>

record request =
  body :: "string \<rightharpoonup> string"
  file_part :: "upfile option"

text \<open>
  What the outside world gives during one create request: the media service's answer if
  the file's bytes are streamed to it (the message of its failure, an ordinary error, or
  the stored file); the database's answer to a write that has passed validation
  (\<open>None\<close> when it accepts the document, the message of its failure otherwise); the
  clock at the time of the write; and the identifier generated for the new document.
\<close>

record create_io =
  upload_reply :: "string + cloud_file"
  write_error :: "string option"
  now :: int
  new_id :: string

text \<open>
  What the outside world gives during one list request: the database's answer to the
  query (\<open>None\<close> when it returns the documents, the message of its failure otherwise).
\<close>

record list_io =
  find_error :: "string option"

record image_rec =
  public_id :: string
  url :: string
  cdn_url :: "string option"

text \<open>
  A product document. The type of the price is a parameter: a stored document holds a
  JavaScript number, a document in a response body holds what \<open>res.json\<close> writes for
  it. The identifier and the dates are sent as texts that determine them and are kept
  as they are.
\<close>

record 'n product =
  doc_id :: string
  name :: string
  description :: string
  price :: 'n
  category :: string
  isFeatured :: bool
  image_doc :: image_rec
  createdAt :: int
  updatedAt :: int

text \<open>\<open>res.json\<close> on a document (lines 126 and 149).\<close>

definition res_json :: "jsnum product \<Rightarrow> json_num product" where
  "res_json p =
     \<lparr>doc_id = doc_id p, name = name p, description = description p,
      price = json_price (price p), category = category p, isFeatured = isFeatured p,
      image_doc = image_doc p, createdAt = createdAt p, updatedAt = updatedAt p\<rparr>"

datatype json_body =
    Message string
  | ProductJson "json_num product"
  | ProductList "json_num product list"

record response =
  status :: nat
  json :: json_body

text \<open>
  The state: the collection of product documents in insertion order, and the files
  whose bytes were handed to the storage engine (streamed to the media service).
\<close>

record state =
  products :: "jsnum product list"
  streamed :: "upfile list"

subsection \<open>Upload middleware (lines 29-61, used at line 100)\<close>

definition fileSize_limit :: nat where
  "fileSize_limit = 5 * 1024 * 1024"

text \<open>Lines 54-60: the filter accepts a file whose MIME type starts with \<open>image/\<close>.\<close>

definition fileFilter :: "upfile \<Rightarrow> js_error + bool" where
  "fileFilter f =
     (if prefix ''image/'' (mimetype f) then Inr True
      else Inl (Error ''Only image files are allowed!''))"

definition too_large :: "runtime \<Rightarrow> upfile \<Rightarrow> bool" where
  "too_large rt f =
     (if fileSize_limit < size_bytes f then True
      else if size_bytes f = fileSize_limit then limit_on_reach rt
      else False)"

text \<open>
  \<open>upload.single('image')\<close>: a request without a file part goes on with no
  \<open>req.file\<close>. A file in another field is refused with the middleware's own error.
  Then the filter runs, before any byte is read. An accepted file is streamed to the
  storage engine; the size limit trips while streaming and wins over the service's
  answer; otherwise the service's answer decides.
\<close>

definition upload_single ::
  "runtime \<Rightarrow> create_io \<Rightarrow> state \<Rightarrow> request \<Rightarrow> state \<times> (js_error + cloud_file option)" where
  "upload_single rt io st rq =
     (case file_part rq of
        None \<Rightarrow> (st, Inr None)
      | Some f \<Rightarrow>
          if fieldname f \<noteq> ''image'' then
            (st, Inl (MulterError ''LIMIT_UNEXPECTED_FILE'' ''Unexpected field''))
          else
            (case fileFilter f of
               Inl e \<Rightarrow> (st, Inl e)
             | Inr keep \<Rightarrow>
                 if \<not> keep then (st, Inr None)
                 else
                   (let st1 = st\<lparr>streamed := streamed st @ [f]\<rparr> in
                    if too_large rt f then
                      (st1, Inl (MulterError ''LIMIT_FILE_SIZE'' ''File too large''))
                    else
                      (case upload_reply io of
                         Inl m \<Rightarrow> (st1, Inl (Error m))
                       | Inr cf \<Rightarrow> (st1, Inr (Some cf))))))"

subsection \<open>Product schema (lines 64-82)\<close>

datatype verr = Required string | CastError string | Min string | Enum string

definition categories :: "string list" where
  "categories = [''jaggery'', ''honey'', ''spices'', ''other'']"

definition required_string :: "string \<Rightarrow> string option \<Rightarrow> verr list" where
  "required_string p v =
     (case v of
        None \<Rightarrow> [Required p]
      | Some s \<Rightarrow> if s = [] then [Required p] else [])"

definition check_price :: "runtime \<Rightarrow> string option \<Rightarrow> verr list" where
  "check_price rt v =
     (case v of
        None \<Rightarrow> [Required ''price'']
      | Some s \<Rightarrow>
          if s = [] then [Required ''price'']
          else if js_Number rt s = NaN then [CastError ''price'']
          else if num_ge0 (js_Number rt s) then []
          else [Min ''price''])"

definition check_category :: "string option \<Rightarrow> verr list" where
  "check_category v =
     (case v of
        None \<Rightarrow> [Required ''category'']
      | Some c \<Rightarrow>
          if c = [] then [Required ''category'']
          else if c \<in> set categories then []
          else [Enum ''category''])"

text \<open>
  The validation that \<open>save\<close> runs on a document built from the body's fields and
  \<open>req.file\<close>: the name is trimmed when set; a missing or empty text fails
  \<open>required\<close>.
\<close>

definition validate :: "runtime \<Rightarrow> (string \<rightharpoonup> string) \<Rightarrow> cloud_file \<Rightarrow> verr list" where
  "validate rt b cf =
     required_string ''name'' (map_option (js_trim rt) (b ''name''))
     @ required_string ''description'' (b ''description'')
     @ check_price rt (b ''price'')
     @ check_category (b ''category'')
     @ required_string ''image.public_id'' (Some (filename cf))
     @ required_string ''image.url'' (Some (path cf))"

definition text_of :: "string option \<Rightarrow> string" where
  "text_of v = (case v of None \<Rightarrow> [] | Some s \<Rightarrow> s)"

definition auto_options :: url_options where
  "auto_options = \<lparr>fetch_format = ''auto'', quality = ''auto''\<rparr>"

text \<open>
  Lines 108-123: the document handed to \<open>save\<close>, with the timestamps set by it;
  \<open>u\<close> is what \<open>cloudinary.url\<close> returned at lines 118-121.
\<close>

definition new_Product ::
  "runtime \<Rightarrow> create_io \<Rightarrow> (string \<rightharpoonup> string) \<Rightarrow> cloud_file \<Rightarrow> string \<Rightarrow> jsnum product" where
  "new_Product rt io b cf u =
     \<lparr>doc_id = new_id io,
      name = js_trim rt (text_of (b ''name'')),
      description = text_of (b ''description''),
      price = js_Number rt (text_of (b ''price'')),
      category = text_of (b ''category''),
      isFeatured = (b ''isFeatured'' = Some ''true''),
      image_doc = \<lparr>public_id = filename cf, url = path cf, cdn_url = Some u\<rparr>,
      createdAt = now io,
      updatedAt = now io\<rparr>"

text \<open>
  Line 125: \<open>product.save()\<close> is refused when validation finds an error, and fails
  when the database does not accept the write.
\<close>

datatype save_error = ValidationError "verr list" | MongoError string

definition save ::
  "runtime \<Rightarrow> create_io \<Rightarrow> state \<Rightarrow> (string \<rightharpoonup> string) \<Rightarrow> cloud_file \<Rightarrow> string
     \<Rightarrow> save_error + (jsnum product \<times> state)" where
  "save rt io st b cf u =
     (case validate rt b cf of
        e # es \<Rightarrow> Inl (ValidationError (e # es))
      | [] \<Rightarrow>
          (case write_error io of
             Some m \<Rightarrow> Inl (MongoError m)
           | None \<Rightarrow>
               (let doc = new_Product rt io b cf u
                in Inr (doc, st\<lparr>products := products st @ [doc]\<rparr>))))"

subsection \<open>Routes and error handler (lines 100-164)\<close>

text \<open>
  Lines 101-130. Everything thrown inside \<open>try\<close> is answered by the \<open>catch\<close> with
  500: \<open>cloudinary.url\<close> throwing while the document is built, and \<open>save\<close> failing.
\<close>

definition create_handler ::
  "runtime \<Rightarrow> create_io \<Rightarrow> state \<Rightarrow> (string \<rightharpoonup> string) \<Rightarrow> cloud_file option \<Rightarrow> response \<times> state" where
  "create_handler rt io st b file =
     (case file of
        None \<Rightarrow> (\<lparr>status = 400, json = Message ''Product image is required''\<rparr>, st)
      | Some cf \<Rightarrow>
          (case cloudinary_url rt (filename cf) auto_options of
             None \<Rightarrow> (\<lparr>status = 500, json = Message ''Server Error''\<rparr>, st)
           | Some u \<Rightarrow>
               (case save rt io st b cf u of
                  Inl err \<Rightarrow> (\<lparr>status = 500, json = Message ''Server Error''\<rparr>, st)
                | Inr (doc, st') \<Rightarrow>
                    (\<lparr>status = 201, json = ProductJson (res_json doc)\<rparr>, st'))))"

fun error_handler :: "js_error \<Rightarrow> response" where
  "error_handler (MulterError code msg) =
     (if code = ''LIMIT_FILE_SIZE'' then \<lparr>status = 400, json = Message ''File is too large''\<rparr>
      else \<lparr>status = 500, json = Message msg\<rparr>)"
| "error_handler (Error msg) = \<lparr>status = 500, json = Message msg\<rparr>"

text \<open>\<open>POST /api/products\<close>: the middleware, then the handler or the error handler.\<close>

definition post_products :: "runtime \<Rightarrow> create_io \<Rightarrow> state \<Rightarrow> request \<Rightarrow> response \<times> state" where
  "post_products rt io st rq =
     (case upload_single rt io st rq of
        (st1, Inl err) \<Rightarrow> (error_handler err, st1)
      | (st1, Inr file) \<Rightarrow> create_handler rt io st1 (body rq) file)"

text \<open>
  Line 136: every document, by creation time descending. The order among documents of
  equal creation time is the database's choice; no theorem below depends on it.
\<close>

definition find_sorted :: "jsnum product list \<Rightarrow> jsnum product list" where
  "find_sorted ps = rev (sort_key createdAt ps)"

text \<open>
  Lines 138-147: the document with its image's \<open>cdn_url\<close> replaced; \<open>None\<close> when
  \<open>cloudinary.url\<close> throws.
\<close>

definition optimized :: "runtime \<Rightarrow> jsnum product \<Rightarrow> jsnum product option" where
  "optimized rt p =
     (case cloudinary_url rt (public_id (image_doc p)) auto_options of
        None \<Rightarrow> None
      | Some u \<Rightarrow> Some (p\<lparr>image_doc := (image_doc p)\<lparr>cdn_url := Some u\<rparr>\<rparr>))"

text \<open>
  Lines 134-154, \<open>GET /api/products\<close>: a failure of the query, or of
  \<open>cloudinary.url\<close> on any document, is answered by the \<open>catch\<close> with 500.
\<close>

definition get_products :: "runtime \<Rightarrow> list_io \<Rightarrow> state \<Rightarrow> response \<times> state" where
  "get_products rt lio st =
     (case find_error lio of
        Some m \<Rightarrow> (\<lparr>status = 500, json = Message ''Server Error''\<rparr>, st)
      | None \<Rightarrow>
          (case those (map (optimized rt) (find_sorted (products st))) of
             None \<Rightarrow> (\<lparr>status = 500, json = Message ''Server Error''\<rparr>, st)
           | Some docs \<Rightarrow> (\<lparr>status = 200, json = ProductList (map res_json docs)\<rparr>, st)))"

text \<open>A document without what is stored as its image's \<open>cdn_url\<close>.\<close>

definition without_cdn_url :: "'n product \<Rightarrow> 'n product" where
  "without_cdn_url p = p\<lparr>image_doc := (image_doc p)\<lparr>cdn_url := None\<rparr>\<rparr>"

subsection \<open>Sample inputs\<close>

definition rt0 :: runtime where
  "rt0 = \<lparr>cloudinary_url = (\<lambda>pid opts.
             Some (''https://res.cloudinary.com/demo/image/upload/f_'' @ fetch_format opts
                   @ '',q_'' @ quality opts @ ''/'' @ pid)),
          js_Number = (\<lambda>s. if s = ''120'' then Num 120
                            else if s = ''Infinity'' then PosInf else NaN),
          js_trim = (\<lambda>s. s),
          limit_on_reach = False\<rparr>"

definition body0 :: "string \<rightharpoonup> string" where
  "body0 = [''name'' \<mapsto> ''Palm jaggery'', ''description'' \<mapsto> ''Block'',
            ''price'' \<mapsto> ''120'', ''category'' \<mapsto> ''jaggery'', ''isFeatured'' \<mapsto> ''true'']"

definition body1 :: "string \<rightharpoonup> string" where
  "body1 = [''name'' \<mapsto> ''Cane sugar'', ''description'' \<mapsto> ''Bag'',
            ''price'' \<mapsto> ''120'', ''category'' \<mapsto> ''sugar'']"

definition body2 :: "string \<rightharpoonup> string" where
  "body2 = [''name'' \<mapsto> ''Forest honey'', ''description'' \<mapsto> ''Jar'',
            ''price'' \<mapsto> ''120'', ''category'' \<mapsto> ''honey'']"

definition body3 :: "string \<rightharpoonup> string" where
  "body3 = [''name'' \<mapsto> ''Saffron'', ''description'' \<mapsto> ''Tin'',
            ''price'' \<mapsto> ''Infinity'', ''category'' \<mapsto> ''spices'']"

definition cf0 :: cloud_file where
  "cf0 = \<lparr>filename = ''jaggery-products/abc'',
          path = ''https://res.cloudinary.com/demo/abc.webp''\<rparr>"

definition url0 :: string where
  "url0 = ''https://res.cloudinary.com/demo/image/upload/f_auto,q_auto/jaggery-products/abc''"

definition io0 :: create_io where
  "io0 = \<lparr>upload_reply = Inr cf0, write_error = None, now = 1000, new_id = ''id1''\<rparr>"

definition io_down :: create_io where
  "io_down = \<lparr>upload_reply = Inr cf0, write_error = Some ''connection lost'',
              now = 1000, new_id = ''id1''\<rparr>"

definition lio0 :: list_io where
  "lio0 = \<lparr>find_error = None\<rparr>"

definition lio_down :: list_io where
  "lio_down = \<lparr>find_error = Some ''connection lost''\<rparr>"

definition st0 :: state where
  "st0 = \<lparr>products = [], streamed = []\<rparr>"

definition png0 :: upfile where
  "png0 = \<lparr>fieldname = ''image'', mimetype = ''image/png'', size_bytes = 2048\<rparr>"

definition big_pdf :: upfile where
  "big_pdf = \<lparr>fieldname = ''image'', mimetype = ''application/pdf'',
              size_bytes = 6 * 1024 * 1024\<rparr>"

definition big_png :: upfile where
  "big_png = \<lparr>fieldname = ''image'', mimetype = ''image/png'',
              size_bytes = 6 * 1024 * 1024\<rparr>"

definition txt0 :: upfile where
  "txt0 = \<lparr>fieldname = ''image'', mimetype = ''text/plain'', size_bytes = 10\<rparr>"

definition doc0 :: "jsnum product" where
  "doc0 = new_Product rt0 io0 body0 cf0 url0"

definition old_doc :: "jsnum product" where
  "old_doc = \<lparr>doc_id = ''id0'', name = ''Honey'', description = ''Jar'', price = Num 80,
               category = ''honey'', isFeatured = False,
               image_doc = \<lparr>public_id = ''jaggery-products/old'',
                            url = ''https://res.cloudinary.com/demo/old.webp'',
                            cdn_url = Some ''stale''\<rparr>,
               createdAt = 500, updatedAt = 500\<rparr>"

definition inf_doc :: "jsnum product" where
  "inf_doc = \<lparr>doc_id = ''id9'', name = ''Saffron'', description = ''Tin'', price = PosInf,
               category = ''spices'', isFeatured = False,
               image_doc = \<lparr>public_id = ''jaggery-products/saf'',
                            url = ''https://res.cloudinary.com/demo/saf.webp'',
                            cdn_url = None\<rparr>,
               createdAt = 700, updatedAt = 700\<rparr>"

definition old_out :: "jsnum product" where
  "old_out = old_doc\<lparr>image_doc := (image_doc old_doc)\<lparr>cdn_url :=
       Some ''https://res.cloudinary.com/demo/image/upload/f_auto,q_auto/jaggery-products/old''\<rparr>\<rparr>"

definition inf_out :: "jsnum product" where
  "inf_out = inf_doc\<lparr>image_doc := (image_doc inf_doc)\<lparr>cdn_url :=
       Some ''https://res.cloudinary.com/demo/image/upload/f_auto,q_auto/jaggery-products/saf''\<rparr>\<rparr>"

subsection \<open>Helper facts\<close>

lemma upload_products:
  "upload_single rt io st rq = (st1, r) \<Longrightarrow> products st1 = products st"
  by (auto simp: upload_single_def Let_def split: option.splits if_splits sum.splits)

lemma post_no_file:
  "file_part rq = None \<Longrightarrow>
   post_products rt io st rq =
     (\<lparr>status = 400, json = Message ''Product image is required''\<rparr>, st)"
  by (simp add: post_products_def upload_single_def create_handler_def)

lemma post_created:
  assumes "upload_single rt io st rq = (st1, Inr (Some cf))"
      and "validate rt (body rq) cf = []"
      and "cloudinary_url rt (filename cf) auto_options = Some u"
      and "write_error io = None"
  shows "post_products rt io st rq =
           (\<lparr>status = 201, json = ProductJson (res_json (new_Product rt io (body rq) cf u))\<rparr>,
            st1\<lparr>products := products st1 @ [new_Product rt io (body rq) cf u]\<rparr>)"
  using assms by (simp add: post_products_def create_handler_def save_def Let_def)

lemma post_write_refused:
  assumes "upload_single rt io st rq = (st1, Inr (Some cf))"
      and "write_error io = Some m"
  shows "post_products rt io st rq = (\<lparr>status = 500, json = Message ''Server Error''\<rparr>, st1)"
  using assms
  by (simp add: post_products_def create_handler_def save_def split: option.splits list.splits)

lemma status_error_handler: "status (error_handler e) \<noteq> 201"
  by (cases e) auto

lemma create_handler_201:
  assumes "create_handler rt io st1 b fl = (r, st')" and "status r = 201"
  shows "\<exists>cf u. fl = Some cf
            \<and> validate rt b cf = []
            \<and> cloudinary_url rt (filename cf) auto_options = Some u
            \<and> write_error io = None
            \<and> r = \<lparr>status = 201, json = ProductJson (res_json (new_Product rt io b cf u))\<rparr>
            \<and> st' = st1\<lparr>products := products st1 @ [new_Product rt io b cf u]\<rparr>"
  using assms
  by (auto simp: create_handler_def save_def Let_def split: option.splits list.splits)

lemma post_201_inv:
  assumes "post_products rt io st rq = (r, st')" and "status r = 201"
  shows "\<exists>st1 cf u. upload_single rt io st rq = (st1, Inr (Some cf))
            \<and> validate rt (body rq) cf = []
            \<and> cloudinary_url rt (filename cf) auto_options = Some u
            \<and> write_error io = None
            \<and> r = \<lparr>status = 201,
                     json = ProductJson (res_json (new_Product rt io (body rq) cf u))\<rparr>
            \<and> st' = st1\<lparr>products := products st1 @ [new_Product rt io (body rq) cf u]\<rparr>"
proof (cases "upload_single rt io st rq")
  case (Pair st1 res)
  show ?thesis
  proof (cases res)
    case (Inl e)
    with Pair assms status_error_handler [of e] show ?thesis
      by (auto simp: post_products_def)
  next
    case (Inr fl)
    with Pair assms have "create_handler rt io st1 (body rq) fl = (r, st')"
      by (simp add: post_products_def)
    from create_handler_201 [OF this assms(2)] Pair Inr show ?thesis
      by auto
  qed
qed

lemma post_invalid:
  assumes "upload_single rt io st rq = (st1, Inr (Some cf))"
      and "validate rt (body rq) cf \<noteq> []"
  shows "post_products rt io st rq = (\<lparr>status = 500, json = Message ''Server Error''\<rparr>, st1)"
  using assms
  by (cases "validate rt (body rq) cf")
     (simp_all add: post_products_def create_handler_def save_def split: option.splits)

lemma save_invalid:
  assumes "validate rt b cf \<noteq> []"
  shows "\<exists>e es. save rt io st b cf u = Inl (ValidationError (e # es))"
  using assms by (cases "validate rt b cf") (simp_all add: save_def)

lemma post_non_image:
  assumes "file_part rq = Some f" and "\<not> prefix ''image/'' (mimetype f)"
  shows "post_products rt io st rq =
           (if fieldname f = ''image''
            then \<lparr>status = 500, json = Message ''Only image files are allowed!''\<rparr>
            else \<lparr>status = 500, json = Message ''Unexpected field''\<rparr>, st)"
  using assms by (simp add: post_products_def upload_single_def fileFilter_def)

lemma post_too_large:
  assumes "file_part rq = Some f" and "fieldname f = ''image''"
      and "prefix ''image/'' (mimetype f)" and "too_large rt f"
  shows "post_products rt io st rq =
           (\<lparr>status = 400, json = Message ''File is too large''\<rparr>,
            st\<lparr>streamed := streamed st @ [f]\<rparr>)"
  using assms by (simp add: post_products_def upload_single_def fileFilter_def Let_def)

lemma create_handler_not_too_large:
  "fst (create_handler rt io st b fl) \<noteq> \<lparr>status = 400, json = Message ''File is too large''\<rparr>"
  by (auto simp: create_handler_def save_def Let_def split: option.splits list.splits)

lemma post_too_large_inv:
  assumes "fst (post_products rt io st rq) = \<lparr>status = 400, json = Message ''File is too large''\<rparr>"
  shows "\<exists>f. file_part rq = Some f \<and> fieldname f = ''image''
             \<and> prefix ''image/'' (mimetype f) \<and> too_large rt f"
  using assms create_handler_not_too_large [of rt io _ "body rq"]
  by (auto simp: post_products_def upload_single_def fileFilter_def Let_def
        split: option.splits if_splits sum.splits)

lemma validate_missing:
  assumes "b ''category'' \<notin> Some ` set categories \<or> b ''name'' = None
           \<or> b ''description'' = None \<or> b ''price'' = None"
  shows "validate rt b cf \<noteq> []"
  using assms
  by (auto simp: validate_def required_string_def check_category_def check_price_def
        split: option.splits if_splits)

lemma new_Product_image:
  "image_doc (new_Product rt io b cf u)
     = \<lparr>public_id = filename cf, url = path cf, cdn_url = Some u\<rparr>"
  by (simp add: new_Product_def)

lemma image_res_json: "image_doc (res_json p) = image_doc p"
  by (simp add: res_json_def)

text \<open>The list route.\<close>

lemma find_sorted_mset: "mset (find_sorted ps) = mset ps"
  by (simp add: find_sorted_def)

lemma set_find_sorted: "set (find_sorted ps) = set ps"
  by (simp add: find_sorted_def)

lemma find_sorted_desc: "sorted_wrt (\<lambda>a b. createdAt b \<le> createdAt a) (find_sorted ps)"
proof -
  have "sorted (map createdAt (sort_key createdAt ps))"
    by (rule sorted_sort_key)
  then have "sorted_wrt (\<lambda>a b. createdAt a \<le> createdAt b) (sort_key createdAt ps)"
    by (simp add: sorted_wrt_map)
  then show ?thesis
    by (simp add: find_sorted_def sorted_wrt_rev)
qed

lemma map_insort_key:
  assumes "\<And>y. k (g y) = k y"
  shows "map g (insort_key k x xs) = insort_key k (g x) (map g xs)"
  using assms by (induction xs) simp_all

lemma map_sort_key:
  assumes "\<And>y. k (g y) = k y"
  shows "map g (sort_key k xs) = sort_key k (map g xs)"
  using assms by (induction xs) (simp_all add: map_insort_key)

lemma find_sorted_map:
  assumes "\<And>y. createdAt (g y) = createdAt y"
  shows "map g (find_sorted ps) = find_sorted (map g ps)"
proof -
  have "map g (sort_key createdAt ps) = sort_key createdAt (map g ps)"
    using assms by (rule map_sort_key)
  then show ?thesis
    by (simp add: find_sorted_def rev_map [symmetric])
qed

lemma optimized_without: "optimized rt (without_cdn_url p) = optimized rt p"
  by (simp add: optimized_def without_cdn_url_def split: option.splits)

lemma optimized_Some:
  assumes "optimized rt p = Some q"
  shows "cloudinary_url rt (public_id (image_doc p)) auto_options = cdn_url (image_doc q)"
    and "cdn_url (image_doc q) \<noteq> None"
    and "public_id (image_doc q) = public_id (image_doc p)"
    and "url (image_doc q) = url (image_doc p)"
    and "createdAt q = createdAt p"
    and "without_cdn_url q = without_cdn_url p"
    and "doc_id q = doc_id p \<and> name q = name p \<and> description q = description p
         \<and> price q = price p \<and> category q = category p \<and> isFeatured q = isFeatured p
         \<and> updatedAt q = updatedAt p"
  using assms by (auto simp: optimized_def without_cdn_url_def split: option.splits)

lemma optimized_new_Product:
  assumes "cloudinary_url rt (filename cf) auto_options = Some u"
  shows "optimized rt (new_Product rt io b cf u) = Some (new_Product rt io b cf u)"
  using assms by (simp add: optimized_def new_Product_def)

lemma those_map_Some:
  assumes "those (map f xs) = Some ys"
  shows "list_all2 (\<lambda>x y. f x = Some y) xs ys"
  using assms
proof (induction xs arbitrary: ys)
  case Nil
  then show ?case by simp
next
  case (Cons x xs)
  then show ?case
    by (cases "f x"; cases "those (map f xs)") auto
qed

lemma those_map_defined:
  assumes "\<forall>x\<in>set xs. f x \<noteq> None"
  shows "\<exists>ys. those (map f xs) = Some ys"
  using assms by (induction xs) auto

lemma list_without:
  "those (map (optimized rt) (find_sorted ps))
     = those (map (optimized rt) (find_sorted (map without_cdn_url ps)))"
proof -
  have "map (optimized rt) (find_sorted (map without_cdn_url ps))
        = map (optimized rt) (map without_cdn_url (find_sorted ps))"
    by (simp add: find_sorted_map without_cdn_url_def)
  also have "\<dots> = map (optimized rt) (find_sorted ps)"
    by (simp add: optimized_without)
  finally show ?thesis by simp
qed

lemma get_products_200:
  assumes "get_products rt lio st = (\<lparr>status = 200, json = ProductList out\<rparr>, st')"
  shows "\<exists>docs. those (map (optimized rt) (find_sorted (products st))) = Some docs
           \<and> out = map res_json docs \<and> st' = st \<and> find_error lio = None"
  using assms by (auto simp: get_products_def split: option.splits)

lemma get_products_ok:
  assumes "find_error lio = None"
      and "those (map (optimized rt) (find_sorted (products st))) = Some docs"
  shows "get_products rt lio st = (\<lparr>status = 200, json = ProductList (map res_json docs)\<rparr>, st)"
  using assms by (simp add: get_products_def)

text \<open>Evaluation of the sample inputs.\<close>

lemma upload_png0:
  "upload_reply io = Inr cf0 \<Longrightarrow>
   upload_single rt0 io st0 \<lparr>body = b, file_part = Some png0\<rparr> =
     (st0\<lparr>streamed := [png0]\<rparr>, Inr (Some cf0))"
  by (simp add: upload_single_def fileFilter_def too_large_def fileSize_limit_def Let_def
        png0_def st0_def rt0_def)

lemma upload_reply_io0: "upload_reply io0 = Inr cf0"
  by (simp add: io0_def)

lemma write_error_io0: "write_error io0 = None"
  by (simp add: io0_def)

lemma url_cf0: "cloudinary_url rt0 (filename cf0) auto_options = Some url0"
  by (simp add: rt0_def cf0_def auto_options_def url0_def)

lemma validate_body0: "validate rt0 body0 cf0 = []"
  by (simp add: validate_def required_string_def check_price_def check_category_def
        categories_def body0_def rt0_def cf0_def)

lemma validate_body2: "validate rt0 body2 cf0 = []"
  by (simp add: validate_def required_string_def check_price_def check_category_def
        categories_def body2_def rt0_def cf0_def)

lemma validate_body3: "validate rt0 body3 cf0 = []"
  by (simp add: validate_def required_string_def check_price_def check_category_def
        categories_def body3_def rt0_def cf0_def)

lemma category_body1: "body1 ''category'' = Some ''sugar''"
  by (simp add: body1_def)

lemma sugar_not_category: "''sugar'' \<notin> set categories"
  by (simp add: categories_def)

lemma post_sample:
  assumes "validate rt0 b cf0 = []"
  shows "post_products rt0 io0 st0 \<lparr>body = b, file_part = Some png0\<rparr> =
     (\<lparr>status = 201, json = ProductJson (res_json (new_Product rt0 io0 b cf0 url0))\<rparr>,
      \<lparr>products = [new_Product rt0 io0 b cf0 url0], streamed = [png0]\<rparr>)"
proof -
  have "validate rt0 (body \<lparr>body = b, file_part = Some png0\<rparr>) cf0 = []"
    using assms by simp
  from post_created [OF upload_png0 [OF upload_reply_io0] this url_cf0 write_error_io0]
  show ?thesis
    by (simp add: st0_def)
qed

lemma list_all2_map_eq:
  assumes "list_all2 R xs ys" and "\<And>x y. R x y \<Longrightarrow> f y = g x"
  shows "map f ys = map g xs"
  using assms by (induction rule: list_all2_induct) simp_all

lemma list_all2_in_set2:
  assumes "list_all2 R xs ys" and "y \<in> set ys"
  shows "\<exists>x\<in>set xs. R x y"
  using assms by (induction rule: list_all2_induct) auto

lemma optimized_old_doc: "optimized rt0 old_doc = Some old_out"
  by (simp add: optimized_def old_out_def old_doc_def rt0_def auto_options_def)

lemma optimized_inf_doc: "optimized rt0 inf_doc = Some inf_out"
  by (simp add: optimized_def inf_out_def inf_doc_def rt0_def auto_options_def)

lemma optimized_doc0: "optimized rt0 doc0 = Some doc0"
  unfolding doc0_def using url_cf0 by (rule optimized_new_Product)

subsection \<open>Claims\<close>

text \<open>
  C1 as stated fails twice. A request with valid fields and a successful upload is
  answered 500 when the database does not accept the write (the \<open>catch\<close> of lines
  127-130). And with the price text \<open>Infinity\<close>, which the schema accepts, the stored
  price is infinite while the response body carries \<open>null\<close>.
\<close>

theorem create_valid_counterexample:
  "upload_single rt0 io_down st0 \<lparr>body = body0, file_part = Some png0\<rparr>
     = (st0\<lparr>streamed := [png0]\<rparr>, Inr (Some cf0))
   \<and> validate rt0 body0 cf0 = []
   \<and> post_products rt0 io_down st0 \<lparr>body = body0, file_part = Some png0\<rparr>
       = (\<lparr>status = 500, json = Message ''Server Error''\<rparr>, st0\<lparr>streamed := [png0]\<rparr>)
   \<and> post_products rt0 io0 st0 \<lparr>body = body3, file_part = Some png0\<rparr>
       = (\<lparr>status = 201, json = ProductJson (res_json (new_Product rt0 io0 body3 cf0 url0))\<rparr>,
          \<lparr>products = [new_Product rt0 io0 body3 cf0 url0], streamed = [png0]\<rparr>)
   \<and> price (new_Product rt0 io0 body3 cf0 url0) = PosInf
   \<and> price (res_json (new_Product rt0 io0 body3 cf0 url0)) = JNull"
proof -
  have r: "upload_reply io_down = Inr cf0" and w: "write_error io_down = Some ''connection lost''"
    by (simp_all add: io_down_def)
  have p: "price (new_Product rt0 io0 body3 cf0 url0) = PosInf"
    by (simp add: new_Product_def body3_def rt0_def text_of_def)
  then have j: "price (res_json (new_Product rt0 io0 body3 cf0 url0)) = JNull"
    by (simp add: res_json_def)
  from upload_png0 [OF r] post_write_refused [OF upload_png0 [OF r] w] validate_body0
       post_sample [OF validate_body3] p j
  show ?thesis by simp
qed

text \<open>
  C1, amended: a create request whose upload succeeded (the middleware put the stored
  file on \<open>req.file\<close>), whose fields pass the schema, for which \<open>cloudinary.url\<close>
  returns and whose write the database accepts, is answered with status 201 and the
  serialisation by \<open>res.json\<close> of the document that was appended to the collection,
  the document built from the body's fields and \<open>req.file\<close>. The serialisation keeps the
  image and a finite price. The document's \<open>cdn_url\<close> is \<open>cloudinary.url\<close> of its
  \<open>public_id\<close> with the options auto format and auto quality, so that the body of any
  other create answered 201 with the same \<open>public_id\<close> has the same \<open>cdn_url\<close>.
\<close>

theorem create_valid:
  assumes "upload_single rt io st rq = (st1, Inr (Some cf))"
      and "validate rt (body rq) cf = []"
      and "cloudinary_url rt (filename cf) auto_options = Some u"
      and "write_error io = None"
  shows "\<exists>d st'. post_products rt io st rq
                    = (\<lparr>status = 201, json = ProductJson (res_json d)\<rparr>, st')
           \<and> d = new_Product rt io (body rq) cf u
           \<and> products st' = products st @ [d]
           \<and> public_id (image_doc d) = filename cf
           \<and> cdn_url (image_doc d)
               = cloudinary_url rt (public_id (image_doc d))
                   \<lparr>fetch_format = ''auto'', quality = ''auto''\<rparr>
           \<and> cdn_url (image_doc d) \<noteq> None
           \<and> image_doc (res_json d) = image_doc d
           \<and> (\<forall>x. price d = Num x \<longrightarrow> price (res_json d) = JNumber x)
           \<and> (\<forall>io2 st2 rq2 j2 st2'.
                 post_products rt io2 st2 rq2 = (\<lparr>status = 201, json = ProductJson j2\<rparr>, st2')
                 \<and> public_id (image_doc j2) = public_id (image_doc (res_json d))
                 \<longrightarrow> cdn_url (image_doc j2) = cdn_url (image_doc (res_json d)))"
proof -
  let ?d = "new_Product rt io (body rq) cf u"
  let ?st' = "st1\<lparr>products := products st1 @ [?d]\<rparr>"
  have a: "post_products rt io st rq = (\<lparr>status = 201, json = ProductJson (res_json ?d)\<rparr>, ?st')"
    using assms by (rule post_created)
  have b: "products ?st' = products st @ [?d]"
    using upload_products [OF assms(1)] by simp
  have i: "image_doc ?d = \<lparr>public_id = filename cf, url = path cf, cdn_url = Some u\<rparr>"
    by (rule new_Product_image)
  have c: "public_id (image_doc ?d) = filename cf"
    using i by simp
  have e: "cdn_url (image_doc ?d)
             = cloudinary_url rt (public_id (image_doc ?d))
                 \<lparr>fetch_format = ''auto'', quality = ''auto''\<rparr>"
    using i assms(3) by (simp add: auto_options_def)
  have f: "cdn_url (image_doc ?d) \<noteq> None"
    using i by simp
  have g: "image_doc (res_json ?d) = image_doc ?d"
    by (rule image_res_json)
  have h: "\<forall>x. price ?d = Num x \<longrightarrow> price (res_json ?d) = JNumber x"
    by (simp add: res_json_def)
  have k: "\<forall>io2 st2 rq2 j2 st2'.
             post_products rt io2 st2 rq2 = (\<lparr>status = 201, json = ProductJson j2\<rparr>, st2')
             \<and> public_id (image_doc j2) = public_id (image_doc (res_json ?d))
             \<longrightarrow> cdn_url (image_doc j2) = cdn_url (image_doc (res_json ?d))"
  proof (intro allI impI, elim conjE)
    fix io2 :: create_io and st2 st2' :: state and rq2 :: request and j2 :: "json_num product"
    assume p: "post_products rt io2 st2 rq2 = (\<lparr>status = 201, json = ProductJson j2\<rparr>, st2')"
       and q: "public_id (image_doc j2) = public_id (image_doc (res_json ?d))"
    from post_201_inv [OF p] obtain cf2 u2
      where u2: "cloudinary_url rt (filename cf2) auto_options = Some u2"
        and j2: "j2 = res_json (new_Product rt io2 (body rq2) cf2 u2)"
      by auto
    have i2: "image_doc j2 = \<lparr>public_id = filename cf2, url = path cf2, cdn_url = Some u2\<rparr>"
      using j2 by (simp add: image_res_json new_Product_image)
    from q i2 g i have "filename cf2 = filename cf" by simp
    with u2 assms(3) have "u2 = u" by simp
    with i2 g i show "cdn_url (image_doc j2) = cdn_url (image_doc (res_json ?d))"
      by simp
  qed
  from a b c e f g h k show ?thesis by blast
qed

theorem create_valid_witness:
  "upload_single rt0 io0 st0 \<lparr>body = body0, file_part = Some png0\<rparr>
     = (st0\<lparr>streamed := [png0]\<rparr>, Inr (Some cf0))
   \<and> validate rt0 body0 cf0 = []
   \<and> cloudinary_url rt0 (filename cf0) auto_options = Some url0
   \<and> write_error io0 = None
   \<and> (\<exists>d st'. post_products rt0 io0 st0 \<lparr>body = body0, file_part = Some png0\<rparr>
                  = (\<lparr>status = 201, json = ProductJson (res_json d)\<rparr>, st')
          \<and> d = new_Product rt0 io0 body0 cf0 url0
          \<and> products st' = products st0 @ [d]
          \<and> cdn_url (image_doc d) = Some url0)"
proof -
  have u: "upload_single rt0 io0 st0 \<lparr>body = body0, file_part = Some png0\<rparr>
             = (st0\<lparr>streamed := [png0]\<rparr>, Inr (Some cf0))"
    using upload_reply_io0 by (rule upload_png0)
  have v: "validate rt0 (body \<lparr>body = body0, file_part = Some png0\<rparr>) cf0 = []"
    by (simp add: validate_body0)
  have c: "cdn_url (image_doc (new_Product rt0 io0 body0 cf0 url0)) = Some url0"
    by (simp add: new_Product_image)
  from create_valid [OF u v url_cf0 write_error_io0] u v url_cf0 write_error_io0 c
  show ?thesis
    by (simp only: request.simps) blast
qed

text \<open>
  C2 as stated, status 200 for every list request, fails when the database query
  fails: the \<open>catch\<close> of lines 150-153 answers 500.
\<close>

theorem list_query_fails_counterexample:
  "find_error lio_down = Some ''connection lost''
   \<and> get_products rt0 lio_down \<lparr>products = [old_doc], streamed = []\<rparr>
       = (\<lparr>status = 500, json = Message ''Server Error''\<rparr>,
          \<lparr>products = [old_doc], streamed = []\<rparr>)"
  by (simp add: get_products_def lio_down_def)

text \<open>
  C2, amended: a list request whose database query succeeds and for whose documents
  \<open>cloudinary.url\<close> returns is answered with status 200 and every stored document as
  \<open>res.json\<close> writes it, each once (compared without \<open>cdn_url\<close>), by creation time
  descending; each returned \<open>cdn_url\<close> is \<open>cloudinary.url\<close> of the document's
  \<open>public_id\<close> with the options auto format and auto quality; and two collections that
  differ only in the stored \<open>cdn_url\<close> values get the same answer, so the stored value
  is never used.
\<close>

theorem list_products:
  assumes "find_error lio = None"
      and "\<forall>p\<in>set (products st).
             cloudinary_url rt (public_id (image_doc p)) auto_options \<noteq> None"
  shows "\<exists>out. get_products rt lio st = (\<lparr>status = 200, json = ProductList out\<rparr>, st)
     \<and> mset (map without_cdn_url out)
         = mset (map (\<lambda>p. without_cdn_url (res_json p)) (products st))
     \<and> sorted_wrt (\<lambda>a b. createdAt b \<le> createdAt a) out
     \<and> (\<forall>j\<in>set out. cdn_url (image_doc j) \<noteq> None
            \<and> cdn_url (image_doc j)
                = cloudinary_url rt (public_id (image_doc j))
                    \<lparr>fetch_format = ''auto'', quality = ''auto''\<rparr>)
     \<and> (\<forall>st2. map without_cdn_url (products st2) = map without_cdn_url (products st)
            \<longrightarrow> fst (get_products rt lio st2) = fst (get_products rt lio st))"
proof -
  let ?xs = "find_sorted (products st)"
  have "\<forall>x\<in>set ?xs. optimized rt x \<noteq> None"
    using assms(2) by (auto simp: set_find_sorted optimized_def split: option.splits)
  then obtain docs where t: "those (map (optimized rt) ?xs) = Some docs"
    using those_map_defined by blast
  then have rel: "list_all2 (\<lambda>x y. optimized rt x = Some y) ?xs docs"
    by (rule those_map_Some)
  let ?out = "map res_json docs"
  have a: "get_products rt lio st = (\<lparr>status = 200, json = ProductList ?out\<rparr>, st)"
    using assms(1) t by (rule get_products_ok)
  have "map (\<lambda>y. without_cdn_url (res_json y)) docs
          = map (\<lambda>p. without_cdn_url (res_json p)) ?xs"
    using rel
    by (rule list_all2_map_eq)
       (auto simp: optimized_def res_json_def without_cdn_url_def split: option.splits)
  then have "mset (map without_cdn_url ?out)
          = mset (map (\<lambda>p. without_cdn_url (res_json p)) ?xs)"
    by (simp add: comp_def)
  also have "\<dots> = mset (map (\<lambda>p. without_cdn_url (res_json p)) (products st))"
    by (simp add: find_sorted_mset)
  finally have b: "mset (map without_cdn_url ?out)
          = mset (map (\<lambda>p. without_cdn_url (res_json p)) (products st))" .
  have "map (\<lambda>y. createdAt (res_json y)) docs = map createdAt ?xs"
    using rel
    by (rule list_all2_map_eq) (auto simp: optimized_def res_json_def split: option.splits)
  then have m: "map createdAt ?out = map createdAt ?xs"
    by (simp add: comp_def)
  have "sorted_wrt (\<lambda>a b. b \<le> a) (map createdAt ?xs)"
    using find_sorted_desc [of "products st"] by (simp add: sorted_wrt_map)
  then have "sorted_wrt (\<lambda>a b. b \<le> a) (map createdAt ?out)"
    by (simp only: m)
  then have c: "sorted_wrt (\<lambda>a b. createdAt b \<le> createdAt a) ?out"
    by (simp only: sorted_wrt_map)
  have d: "\<forall>j\<in>set ?out. cdn_url (image_doc j) \<noteq> None
            \<and> cdn_url (image_doc j)
                = cloudinary_url rt (public_id (image_doc j))
                    \<lparr>fetch_format = ''auto'', quality = ''auto''\<rparr>"
  proof
    fix j assume "j \<in> set ?out"
    then obtain y where y: "y \<in> set docs" and j: "j = res_json y" by auto
    from list_all2_in_set2 [OF rel y] obtain x where x: "optimized rt x = Some y" by blast
    from optimized_Some(1-3) [OF x] j
    show "cdn_url (image_doc j) \<noteq> None
            \<and> cdn_url (image_doc j)
                = cloudinary_url rt (public_id (image_doc j))
                    \<lparr>fetch_format = ''auto'', quality = ''auto''\<rparr>"
      by (simp add: image_res_json auto_options_def)
  qed
  have e: "\<forall>st2. map without_cdn_url (products st2) = map without_cdn_url (products st)
            \<longrightarrow> fst (get_products rt lio st2) = fst (get_products rt lio st)"
  proof (intro allI impI)
    fix st2 :: state
    assume "map without_cdn_url (products st2) = map without_cdn_url (products st)"
    then have "those (map (optimized rt) (find_sorted (products st2)))
                 = those (map (optimized rt) ?xs)"
      using list_without [of rt "products st2"] list_without [of rt "products st"] by simp
    then show "fst (get_products rt lio st2) = fst (get_products rt lio st)"
      by (simp add: get_products_def split: option.splits)
  qed
  from a b c d e show ?thesis by blast
qed

theorem list_products_witness:
  "find_error lio0 = None
   \<and> cloudinary_url rt0 (public_id (image_doc old_doc)) auto_options \<noteq> None
   \<and> cloudinary_url rt0 (public_id (image_doc doc0)) auto_options \<noteq> None
   \<and> get_products rt0 lio0 \<lparr>products = [old_doc, doc0], streamed = []\<rparr>
       = (\<lparr>status = 200, json = ProductList [res_json doc0, res_json old_out]\<rparr>,
          \<lparr>products = [old_doc, doc0], streamed = []\<rparr>)
   \<and> cdn_url (image_doc (res_json old_out))
       = Some ''https://res.cloudinary.com/demo/image/upload/f_auto,q_auto/jaggery-products/old''"
proof -
  have f: "find_error lio0 = None"
    by (simp add: lio0_def)
  have u: "cloudinary_url rt0 (public_id (image_doc old_doc)) auto_options \<noteq> None"
      "cloudinary_url rt0 (public_id (image_doc doc0)) auto_options \<noteq> None"
    by (simp_all add: rt0_def)
  then have h: "\<forall>p\<in>set (products \<lparr>products = [old_doc, doc0], streamed = []\<rparr>).
             cloudinary_url rt0 (public_id (image_doc p)) auto_options \<noteq> None"
    by simp
  have s: "find_sorted [old_doc, doc0] = [doc0, old_doc]"
    by (simp add: find_sorted_def old_doc_def doc0_def new_Product_def io0_def)
  have g: "get_products rt0 lio0 \<lparr>products = [old_doc, doc0], streamed = []\<rparr>
       = (\<lparr>status = 200, json = ProductList [res_json doc0, res_json old_out]\<rparr>,
          \<lparr>products = [old_doc, doc0], streamed = []\<rparr>)"
    by (simp add: get_products_def f s optimized_doc0 optimized_old_doc)
  have c: "cdn_url (image_doc (res_json old_out))
       = Some ''https://res.cloudinary.com/demo/image/upload/f_auto,q_auto/jaggery-products/old''"
    by (simp add: image_res_json old_out_def)
  from list_products [OF f h] f u g c show ?thesis by simp
qed

text \<open>
  C3: a create request that carries no file part is answered with status 400 and the
  body \<open>{message: "Product image is required"}\<close>, and the state (the collection
  included) is unchanged.
\<close>

theorem create_without_file:
  assumes "file_part rq = None"
  shows "post_products rt io st rq =
           (\<lparr>status = 400, json = Message ''Product image is required''\<rparr>, st)"
  using assms by (rule post_no_file)

theorem create_without_file_witness:
  "post_products rt0 io0 st0 \<lparr>body = body0, file_part = None\<rparr> =
     (\<lparr>status = 400, json = Message ''Product image is required''\<rparr>, st0)"
  using create_without_file [of "\<lparr>body = body0, file_part = None\<rparr>" rt0 io0 st0] by simp

text \<open>
  C4 as stated, for every request whose file exceeds 5 MB, fails on a file that is not an
  image: the filter refuses a PDF of 6 MB before its size is looked at, and the error
  handler answers 500 with the filter's message.
\<close>

theorem oversized_non_image_counterexample:
  "file_part \<lparr>body = body0, file_part = Some big_pdf\<rparr> = Some big_pdf
   \<and> fileSize_limit < size_bytes big_pdf
   \<and> post_products rt0 io0 st0 \<lparr>body = body0, file_part = Some big_pdf\<rparr>
       = (\<lparr>status = 500, json = Message ''Only image files are allowed!''\<rparr>, st0)
   \<and> fst (post_products rt0 io0 st0 \<lparr>body = body0, file_part = Some big_pdf\<rparr>)
       \<noteq> \<lparr>status = 400, json = Message ''File is too large''\<rparr>"
  by (simp add: post_products_def upload_single_def fileFilter_def big_pdf_def
        fileSize_limit_def)

text \<open>
  C4, amended: a create request whose file is in the field \<open>image\<close>, has a MIME type
  starting with \<open>image/\<close> and exceeds 5 MB is answered with status 400 and the body
  \<open>{message: "File is too large"}\<close>; the collection is unchanged; and this answer is
  given to no request other than one whose file reaches the size limit, which tells it
  from every other failure.
\<close>

theorem oversized_image:
  assumes "file_part rq = Some f"
      and "fieldname f = ''image''"
      and "prefix ''image/'' (mimetype f)"
      and "fileSize_limit < size_bytes f"
  shows "fst (post_products rt io st rq) = \<lparr>status = 400, json = Message ''File is too large''\<rparr>
         \<and> products (snd (post_products rt io st rq)) = products st
         \<and> (\<forall>io2 st2 rq2.
               fst (post_products rt io2 st2 rq2)
                 = \<lparr>status = 400, json = Message ''File is too large''\<rparr>
               \<longrightarrow> (\<exists>g. file_part rq2 = Some g \<and> fileSize_limit \<le> size_bytes g))"
proof -
  have t: "too_large rt f"
    using assms(4) by (simp add: too_large_def)
  have a: "post_products rt io st rq =
           (\<lparr>status = 400, json = Message ''File is too large''\<rparr>,
            st\<lparr>streamed := streamed st @ [f]\<rparr>)"
    using assms(1-3) t by (rule post_too_large)
  have b: "\<forall>io2 st2 rq2.
               fst (post_products rt io2 st2 rq2)
                 = \<lparr>status = 400, json = Message ''File is too large''\<rparr>
               \<longrightarrow> (\<exists>g. file_part rq2 = Some g \<and> fileSize_limit \<le> size_bytes g)"
  proof (intro allI impI)
    fix io2 :: create_io and st2 :: state and rq2 :: request
    assume "fst (post_products rt io2 st2 rq2)
              = \<lparr>status = 400, json = Message ''File is too large''\<rparr>"
    from post_too_large_inv [OF this] obtain g
      where "file_part rq2 = Some g" and "too_large rt g" by blast
    then show "\<exists>g. file_part rq2 = Some g \<and> fileSize_limit \<le> size_bytes g"
      by (auto simp: too_large_def split: if_splits)
  qed
  from a b show ?thesis by simp
qed

theorem oversized_image_witness:
  "file_part \<lparr>body = body0, file_part = Some big_png\<rparr> = Some big_png
   \<and> fieldname big_png = ''image''
   \<and> prefix ''image/'' (mimetype big_png)
   \<and> fileSize_limit < size_bytes big_png
   \<and> fst (post_products rt0 io0 st0 \<lparr>body = body0, file_part = Some big_png\<rparr>)
       = \<lparr>status = 400, json = Message ''File is too large''\<rparr>
   \<and> products (snd (post_products rt0 io0 st0 \<lparr>body = body0, file_part = Some big_png\<rparr>))
       = products st0"
proof -
  have h: "file_part \<lparr>body = body0, file_part = Some big_png\<rparr> = Some big_png"
      "fieldname big_png = ''image''"
      "prefix ''image/'' (mimetype big_png)"
      "fileSize_limit < size_bytes big_png"
    by (simp_all add: big_png_def fileSize_limit_def)
  from oversized_image [OF h, of rt0 io0 st0] h show ?thesis by simp
qed

text \<open>
  C5: a create request whose file's MIME type does not start with \<open>image/\<close> should be
  rejected with a client error before upload, with no product stored. The code does
  reject it before upload and stores nothing, but not with a client error: a
  \<open>text/plain\<close> file in the field \<open>image\<close> is refused by the filter with an ordinary
  error, which falls through the error handler to its last line and is answered with
  status 500 and the filter's message; the state is as it was.
\<close>

theorem non_image_answered_500:
  "mimetype txt0 = ''text/plain''
   \<and> fieldname txt0 = ''image''
   \<and> post_products rt0 io0 st0 \<lparr>body = body0, file_part = Some txt0\<rparr>
       = (\<lparr>status = 500, json = Message ''Only image files are allowed!''\<rparr>, st0)"
  by (simp add: post_products_def upload_single_def fileFilter_def txt0_def)

text \<open>
  C6 as stated, for every request whose category is outside the set, fails on a request
  that carries no file: the handler answers 400 before any document is built.
\<close>

theorem invalid_category_no_file_counterexample:
  "body \<lparr>body = body1, file_part = None\<rparr> ''category'' = Some ''sugar''
   \<and> ''sugar'' \<notin> set categories
   \<and> post_products rt0 io0 st0 \<lparr>body = body1, file_part = None\<rparr>
       = (\<lparr>status = 400, json = Message ''Product image is required''\<rparr>, st0)"
  by (simp add: post_products_def upload_single_def create_handler_def body1_def categories_def)

text \<open>
  C6, amended: a create request whose upload succeeded and whose category is outside
  \<open>{jaggery, honey, spices, other}\<close> or absent, or whose name, description or price is
  absent, has its write refused with validation errors, is answered with status 500 and
  the body \<open>{message: "Server Error"}\<close>, and leaves the collection unchanged.
\<close>

theorem invalid_fields_rejected:
  assumes "upload_single rt io st rq = (st1, Inr (Some cf))"
      and "body rq ''category'' \<notin> Some ` set categories
           \<or> body rq ''name'' = None \<or> body rq ''description'' = None
           \<or> body rq ''price'' = None"
  shows "(\<forall>u. \<exists>e es. save rt io st1 (body rq) cf u = Inl (ValidationError (e # es)))
         \<and> fst (post_products rt io st rq) = \<lparr>status = 500, json = Message ''Server Error''\<rparr>
         \<and> products (snd (post_products rt io st rq)) = products st"
proof -
  have v: "validate rt (body rq) cf \<noteq> []"
    using assms(2) by (rule validate_missing)
  have "post_products rt io st rq = (\<lparr>status = 500, json = Message ''Server Error''\<rparr>, st1)"
    using assms(1) v by (rule post_invalid)
  moreover have "products st1 = products st"
    using assms(1) by (rule upload_products)
  moreover have "\<forall>u. \<exists>e es. save rt io st1 (body rq) cf u = Inl (ValidationError (e # es))"
    using save_invalid [OF v] by blast
  ultimately show ?thesis by simp
qed

theorem invalid_fields_rejected_witness:
  "upload_single rt0 io0 st0 \<lparr>body = body1, file_part = Some png0\<rparr> =
     (st0\<lparr>streamed := [png0]\<rparr>, Inr (Some cf0))
   \<and> body1 ''category'' \<notin> Some ` set categories
   \<and> fst (post_products rt0 io0 st0 \<lparr>body = body1, file_part = Some png0\<rparr>)
       = \<lparr>status = 500, json = Message ''Server Error''\<rparr>
   \<and> products (snd (post_products rt0 io0 st0 \<lparr>body = body1, file_part = Some png0\<rparr>))
       = products st0"
proof -
  have u: "upload_single rt0 io0 st0 \<lparr>body = body1, file_part = Some png0\<rparr> =
     (st0\<lparr>streamed := [png0]\<rparr>, Inr (Some cf0))"
    using upload_reply_io0 by (rule upload_png0)
  have c: "body1 ''category'' \<notin> Some ` set categories"
    using sugar_not_category by (auto simp: category_body1)
  then have h: "body \<lparr>body = body1, file_part = Some png0\<rparr> ''category'' \<notin> Some ` set categories
           \<or> body \<lparr>body = body1, file_part = Some png0\<rparr> ''name'' = None
           \<or> body \<lparr>body = body1, file_part = Some png0\<rparr> ''description'' = None
           \<or> body \<lparr>body = body1, file_part = Some png0\<rparr> ''price'' = None"
    by simp
  from invalid_fields_rejected [OF u h] u c show ?thesis by simp
qed

text \<open>
  C7 as stated fails: a request with an accepted image and the category \<open>sugar\<close>, an
  invalid enum value, is answered with status 500.
\<close>

theorem invalid_category_500_counterexample:
  "body1 ''category'' = Some ''sugar''
   \<and> ''sugar'' \<notin> set categories
   \<and> post_products rt0 io0 st0 \<lparr>body = body1, file_part = Some png0\<rparr>
       = (\<lparr>status = 500, json = Message ''Server Error''\<rparr>, st0\<lparr>streamed := [png0]\<rparr>)"
proof -
  have u: "upload_single rt0 io0 st0 \<lparr>body = body1, file_part = Some png0\<rparr> =
     (st0\<lparr>streamed := [png0]\<rparr>, Inr (Some cf0))"
    using upload_reply_io0 by (rule upload_png0)
  have v: "validate rt0 (body \<lparr>body = body1, file_part = Some png0\<rparr>) cf0 \<noteq> []"
    by (simp add: validate_def check_category_def body1_def categories_def)
  from post_invalid [OF u v] category_body1 sugar_not_category show ?thesis by simp
qed

text \<open>
  C7, amended: a create request without a file part is answered with status 400 and
  \<open>{message: "Product image is required"}\<close>; a create request whose file is in the
  field \<open>image\<close>, has a MIME type starting with \<open>image/\<close> and exceeds 5 MB is answered
  with status 400 and \<open>{message: "File is too large"}\<close>; a create request whose upload
  succeeded and whose category is outside the set or absent, or whose name, description
  or price is absent, is answered with status 500 and \<open>{message: "Server Error"}\<close>.
\<close>

theorem client_errors_by_status:
  "(file_part rq = None \<longrightarrow>
      fst (post_products rt io st rq)
        = \<lparr>status = 400, json = Message ''Product image is required''\<rparr>)
   \<and> (file_part rq = Some f \<and> fieldname f = ''image'' \<and> prefix ''image/'' (mimetype f)
        \<and> fileSize_limit < size_bytes f \<longrightarrow>
      fst (post_products rt io st rq) = \<lparr>status = 400, json = Message ''File is too large''\<rparr>)
   \<and> (upload_single rt io st rq = (st1, Inr (Some cf))
        \<and> (body rq ''category'' \<notin> Some ` set categories
             \<or> body rq ''name'' = None \<or> body rq ''description'' = None
             \<or> body rq ''price'' = None) \<longrightarrow>
      fst (post_products rt io st rq) = \<lparr>status = 500, json = Message ''Server Error''\<rparr>)"
proof (intro conjI impI)
  assume "file_part rq = None"
  then show "fst (post_products rt io st rq)
               = \<lparr>status = 400, json = Message ''Product image is required''\<rparr>"
    by (simp add: post_no_file)
next
  assume a: "file_part rq = Some f \<and> fieldname f = ''image'' \<and> prefix ''image/'' (mimetype f)
        \<and> fileSize_limit < size_bytes f"
  then have "too_large rt f" by (simp add: too_large_def)
  with a show "fst (post_products rt io st rq)
                 = \<lparr>status = 400, json = Message ''File is too large''\<rparr>"
    by (simp add: post_too_large)
next
  assume a: "upload_single rt io st rq = (st1, Inr (Some cf))
        \<and> (body rq ''category'' \<notin> Some ` set categories
             \<or> body rq ''name'' = None \<or> body rq ''description'' = None
             \<or> body rq ''price'' = None)"
  then have "validate rt (body rq) cf \<noteq> []"
    using validate_missing by blast
  with a show "fst (post_products rt io st rq)
                 = \<lparr>status = 500, json = Message ''Server Error''\<rparr>"
    by (simp add: post_invalid)
qed

theorem client_errors_by_status_witness:
  "fst (post_products rt0 io0 st0 \<lparr>body = body0, file_part = None\<rparr>)
     = \<lparr>status = 400, json = Message ''Product image is required''\<rparr>
   \<and> fst (post_products rt0 io0 st0 \<lparr>body = body0, file_part = Some big_png\<rparr>)
     = \<lparr>status = 400, json = Message ''File is too large''\<rparr>
   \<and> fst (post_products rt0 io0 st0 \<lparr>body = body1, file_part = Some png0\<rparr>)
     = \<lparr>status = 500, json = Message ''Server Error''\<rparr>"
proof -
  have a: "fst (post_products rt0 io0 st0 \<lparr>body = body0, file_part = None\<rparr>)
     = \<lparr>status = 400, json = Message ''Product image is required''\<rparr>"
    using client_errors_by_status
      [where rq = "\<lparr>body = body0, file_part = None\<rparr>" and rt = rt0 and io = io0 and st = st0]
    by simp
  have b: "fst (post_products rt0 io0 st0 \<lparr>body = body0, file_part = Some big_png\<rparr>)
     = \<lparr>status = 400, json = Message ''File is too large''\<rparr>"
    using client_errors_by_status
      [where rq = "\<lparr>body = body0, file_part = Some big_png\<rparr>" and f = big_png
         and rt = rt0 and io = io0 and st = st0]
    by (simp add: big_png_def fileSize_limit_def)
  have "body1 ''category'' \<notin> Some ` set categories"
    using sugar_not_category by (auto simp: category_body1)
  then have d: "fst (post_products rt0 io0 st0 \<lparr>body = body1, file_part = Some png0\<rparr>)
     = \<lparr>status = 500, json = Message ''Server Error''\<rparr>"
    using client_errors_by_status
      [where rq = "\<lparr>body = body1, file_part = Some png0\<rparr>" and rt = rt0 and io = io0
         and st = st0 and ?st1.0 = "st0\<lparr>streamed := [png0]\<rparr>" and cf = cf0]
      upload_png0 [OF upload_reply_io0, of body1]
    by simp
  from a b d show ?thesis by simp
qed

text \<open>
  C8: in the document stored by a create request, \<open>isFeatured\<close> is true exactly when
  the body's \<open>isFeatured\<close> field is the text \<open>true\<close>; any other text and an absent
  field give false.
\<close>

theorem isFeatured_coercion:
  assumes "post_products rt io st rq = (r, st')"
      and "status r = 201"
  shows "\<exists>d. json r = ProductJson (res_json d)
           \<and> products st' = products st @ [d]
           \<and> isFeatured d = (body rq ''isFeatured'' = Some ''true'')
           \<and> isFeatured (res_json d) = isFeatured d"
proof -
  from post_201_inv [OF assms] obtain st1 cf u
    where v: "upload_single rt io st rq = (st1, Inr (Some cf))"
      and r: "r = \<lparr>status = 201,
                   json = ProductJson (res_json (new_Product rt io (body rq) cf u))\<rparr>"
      and s: "st' = st1\<lparr>products := products st1 @ [new_Product rt io (body rq) cf u]\<rparr>"
    by blast
  have "products st1 = products st"
    using v by (rule upload_products)
  with r s show ?thesis
    by (simp add: new_Product_def res_json_def)
qed

theorem isFeatured_coercion_witness:
  "(\<exists>d. json (fst (post_products rt0 io0 st0 \<lparr>body = body0, file_part = Some png0\<rparr>))
           = ProductJson (res_json d)
        \<and> products (snd (post_products rt0 io0 st0 \<lparr>body = body0, file_part = Some png0\<rparr>))
           = [d]
        \<and> isFeatured d)
   \<and> (\<exists>d. json (fst (post_products rt0 io0 st0 \<lparr>body = body2, file_part = Some png0\<rparr>))
           = ProductJson (res_json d)
        \<and> products (snd (post_products rt0 io0 st0 \<lparr>body = body2, file_part = Some png0\<rparr>))
           = [d]
        \<and> \<not> isFeatured d)"
proof -
  have p0: "status (fst (post_products rt0 io0 st0 \<lparr>body = body0, file_part = Some png0\<rparr>)) = 201"
    by (simp add: post_sample [OF validate_body0])
  have p2: "status (fst (post_products rt0 io0 st0 \<lparr>body = body2, file_part = Some png0\<rparr>)) = 201"
    by (simp add: post_sample [OF validate_body2])
  have f0: "body0 ''isFeatured'' = Some ''true''"
    by (simp add: body0_def)
  have f2: "body2 ''isFeatured'' = None"
    by (simp add: body2_def)
  have e: "products st0 = []"
    by (simp add: st0_def)
  from isFeatured_coercion [OF prod.collapse [symmetric] p0]
       isFeatured_coercion [OF prod.collapse [symmetric] p2] f0 f2 e
  show ?thesis by auto
qed

text \<open>
  C9: for a created product, the \<open>cdn_url\<close> stored at create time is
  \<open>cloudinary.url\<close> of its \<open>public_id\<close> with the options auto format and auto
  quality; the list route's recomputation for the document returns, and gives the
  document exactly as created; every list answered 200 over the resulting collection
  contains the created document as \<open>res.json\<close> writes it; and the list is answered 200
  whenever the query succeeds and \<open>cloudinary.url\<close> returns for the documents that were
  there before.
\<close>

theorem stored_cdn_url_agrees:
  assumes "post_products rt io st rq = (r, st')"
      and "status r = 201"
  shows "\<exists>d. json r = ProductJson (res_json d)
           \<and> d \<in> set (products st')
           \<and> cdn_url (image_doc d)
               = cloudinary_url rt (public_id (image_doc d))
                   \<lparr>fetch_format = ''auto'', quality = ''auto''\<rparr>
           \<and> cdn_url (image_doc d) \<noteq> None
           \<and> optimized rt d = Some d
           \<and> (\<forall>lio out. fst (get_products rt lio st')
                           = \<lparr>status = 200, json = ProductList out\<rparr>
                \<longrightarrow> res_json d \<in> set out)
           \<and> (\<forall>lio. find_error lio = None
                  \<and> list_all (\<lambda>p. cloudinary_url rt (public_id (image_doc p)) auto_options
                                    \<noteq> None) (products st)
                \<longrightarrow> (\<exists>out. fst (get_products rt lio st')
                              = \<lparr>status = 200, json = ProductList out\<rparr>
                          \<and> res_json d \<in> set out))"
proof -
  from post_201_inv [OF assms] obtain st1 cf u
    where v: "upload_single rt io st rq = (st1, Inr (Some cf))"
      and c: "cloudinary_url rt (filename cf) auto_options = Some u"
      and r: "r = \<lparr>status = 201,
                   json = ProductJson (res_json (new_Product rt io (body rq) cf u))\<rparr>"
      and s: "st' = st1\<lparr>products := products st1 @ [new_Product rt io (body rq) cf u]\<rparr>"
    by blast
  let ?d = "new_Product rt io (body rq) cf u"
  have ps: "products st' = products st @ [?d]"
    using s upload_products [OF v] by simp
  have a: "json r = ProductJson (res_json ?d)"
    using r by simp
  have b: "?d \<in> set (products st')"
    using ps by simp
  have i: "image_doc ?d = \<lparr>public_id = filename cf, url = path cf, cdn_url = Some u\<rparr>"
    by (rule new_Product_image)
  have e: "cdn_url (image_doc ?d)
             = cloudinary_url rt (public_id (image_doc ?d))
                 \<lparr>fetch_format = ''auto'', quality = ''auto''\<rparr>"
    using i c by (simp add: auto_options_def)
  have f: "cdn_url (image_doc ?d) \<noteq> None"
    using i by simp
  have o: "optimized rt ?d = Some ?d"
    using c by (rule optimized_new_Product)
  have mem: "res_json ?d \<in> set (map res_json docs)"
    if t: "those (map (optimized rt) (find_sorted (products st'))) = Some docs" for docs
  proof -
    have rel: "list_all2 (\<lambda>x y. optimized rt x = Some y) (find_sorted (products st')) docs"
      using t by (rule those_map_Some)
    have "?d \<in> set (find_sorted (products st'))"
      using b by (simp add: set_find_sorted)
    then obtain n where n: "n < length (find_sorted (products st'))"
        and dn: "find_sorted (products st') ! n = ?d"
      by (auto simp: in_set_conv_nth)
    from rel n have "optimized rt (find_sorted (products st') ! n) = Some (docs ! n)"
        and "n < length docs"
      by (auto simp: list_all2_conv_all_nth)
    with dn o have "docs ! n = ?d" and "n < length docs" by simp_all
    then have "?d \<in> set docs" by (auto simp: in_set_conv_nth)
    then show ?thesis by simp
  qed
  have g: "\<forall>lio out. fst (get_products rt lio st') = \<lparr>status = 200, json = ProductList out\<rparr>
                \<longrightarrow> res_json ?d \<in> set out"
  proof (intro allI impI)
    fix lio :: list_io and out
    assume "fst (get_products rt lio st') = \<lparr>status = 200, json = ProductList out\<rparr>"
    then have "get_products rt lio st'
                 = (\<lparr>status = 200, json = ProductList out\<rparr>, snd (get_products rt lio st'))"
      by (metis prod.collapse)
    from get_products_200 [OF this] obtain docs
      where "those (map (optimized rt) (find_sorted (products st'))) = Some docs"
        and "out = map res_json docs"
      by blast
    with mem show "res_json ?d \<in> set out" by simp
  qed
  have h: "\<forall>lio. find_error lio = None
                  \<and> list_all (\<lambda>p. cloudinary_url rt (public_id (image_doc p)) auto_options
                                    \<noteq> None) (products st)
                \<longrightarrow> (\<exists>out. fst (get_products rt lio st')
                              = \<lparr>status = 200, json = ProductList out\<rparr>
                          \<and> res_json ?d \<in> set out)"
  proof (intro allI impI, elim conjE)
    fix lio :: list_io
    assume fe: "find_error lio = None"
       and al: "list_all (\<lambda>p. cloudinary_url rt (public_id (image_doc p)) auto_options
                                    \<noteq> None) (products st)"
    have "\<forall>x\<in>set (find_sorted (products st')). optimized rt x \<noteq> None"
      using al o ps
      by (auto simp: set_find_sorted list_all_iff optimized_def split: option.splits)
    then obtain docs where t: "those (map (optimized rt) (find_sorted (products st'))) = Some docs"
      using those_map_defined by blast
    from get_products_ok [OF fe t] mem [OF t]
    show "\<exists>out. fst (get_products rt lio st') = \<lparr>status = 200, json = ProductList out\<rparr>
                          \<and> res_json ?d \<in> set out"
      by simp
  qed
  from a b e f o g h show ?thesis by blast
qed

theorem stored_cdn_url_agrees_witness:
  "status (fst (post_products rt0 io0 st0 \<lparr>body = body0, file_part = Some png0\<rparr>)) = 201
   \<and> (\<exists>d. json (fst (post_products rt0 io0 st0 \<lparr>body = body0, file_part = Some png0\<rparr>))
           = ProductJson (res_json d)
        \<and> optimized rt0 d = Some d
        \<and> (\<exists>out. fst (get_products rt0 lio0
                         (snd (post_products rt0 io0 st0 \<lparr>body = body0, file_part = Some png0\<rparr>)))
                     = \<lparr>status = 200, json = ProductList out\<rparr>
               \<and> res_json d \<in> set out))"
proof -
  have p0: "status (fst (post_products rt0 io0 st0 \<lparr>body = body0, file_part = Some png0\<rparr>)) = 201"
    by (simp add: post_sample [OF validate_body0])
  have l: "find_error lio0 = None
           \<and> list_all (\<lambda>p. cloudinary_url rt0 (public_id (image_doc p)) auto_options \<noteq> None)
               (products st0)"
    by (simp add: lio0_def st0_def)
  from stored_cdn_url_agrees [OF prod.collapse [symmetric] p0] p0 l
  show ?thesis by blast
qed

text \<open>
  C10 as stated, every field unchanged, fails for a stored price that is not finite:
  the document's price is infinite and the list route sends \<open>null\<close> for it.
\<close>

theorem list_infinite_price_counterexample:
  "price inf_doc = PosInf
   \<and> get_products rt0 lio0 \<lparr>products = [inf_doc], streamed = []\<rparr>
       = (\<lparr>status = 200, json = ProductList [res_json inf_out]\<rparr>,
          \<lparr>products = [inf_doc], streamed = []\<rparr>)
   \<and> price (res_json inf_out) = JNull"
proof -
  have s: "find_sorted [inf_doc] = [inf_doc]"
    by (simp add: find_sorted_def)
  have "price inf_doc = PosInf"
    by (simp add: inf_doc_def)
  moreover have "price (res_json inf_out) = JNull"
    by (simp add: res_json_def inf_out_def inf_doc_def)
  moreover have "get_products rt0 lio0 \<lparr>products = [inf_doc], streamed = []\<rparr>
       = (\<lparr>status = 200, json = ProductList [res_json inf_out]\<rparr>,
          \<lparr>products = [inf_doc], streamed = []\<rparr>)"
    by (simp add: get_products_def lio0_def s optimized_inf_doc)
  ultimately show ?thesis by simp
qed

text \<open>
  C10, amended: a list request answered 200 returns, for each stored document, one
  object in which every field has its stored value as \<open>res.json\<close> writes it (the price
  as a number when it is finite, as \<open>null\<close> otherwise), \<open>image.public_id\<close> and
  \<open>image.url\<close> among them, except \<open>image.cdn_url\<close>, which is the value that
  \<open>cloudinary.url\<close> returns for the document's \<open>public_id\<close> with the options auto
  format and auto quality; the collection is left as it was.
\<close>

theorem list_frame:
  assumes "get_products rt lio st = (\<lparr>status = 200, json = ProductList out\<rparr>, st')"
  shows "st' = st
     \<and> (\<exists>qs. mset qs = mset (products st)
          \<and> list_all2 (\<lambda>p j.
                doc_id j = doc_id p
              \<and> name j = name p
              \<and> description j = description p
              \<and> price j = json_price (price p)
              \<and> (\<forall>x. price p = Num x \<longrightarrow> price j = JNumber x)
              \<and> category j = category p
              \<and> isFeatured j = isFeatured p
              \<and> createdAt j = createdAt p
              \<and> updatedAt j = updatedAt p
              \<and> public_id (image_doc j) = public_id (image_doc p)
              \<and> url (image_doc j) = url (image_doc p)
              \<and> cdn_url (image_doc j)
                  = cloudinary_url rt (public_id (image_doc p))
                      \<lparr>fetch_format = ''auto'', quality = ''auto''\<rparr>
              \<and> cdn_url (image_doc j) \<noteq> None) qs out)"
proof -
  from get_products_200 [OF assms] obtain docs
    where t: "those (map (optimized rt) (find_sorted (products st))) = Some docs"
      and o: "out = map res_json docs" and s: "st' = st"
    by blast
  have rel: "list_all2 (\<lambda>x y. optimized rt x = Some y) (find_sorted (products st)) docs"
    using t by (rule those_map_Some)
  have "list_all2 (\<lambda>p y.
                doc_id (res_json y) = doc_id p
              \<and> name (res_json y) = name p
              \<and> description (res_json y) = description p
              \<and> price (res_json y) = json_price (price p)
              \<and> (\<forall>x. price p = Num x \<longrightarrow> price (res_json y) = JNumber x)
              \<and> category (res_json y) = category p
              \<and> isFeatured (res_json y) = isFeatured p
              \<and> createdAt (res_json y) = createdAt p
              \<and> updatedAt (res_json y) = updatedAt p
              \<and> public_id (image_doc (res_json y)) = public_id (image_doc p)
              \<and> url (image_doc (res_json y)) = url (image_doc p)
              \<and> cdn_url (image_doc (res_json y))
                  = cloudinary_url rt (public_id (image_doc p))
                      \<lparr>fetch_format = ''auto'', quality = ''auto''\<rparr>
              \<and> cdn_url (image_doc (res_json y)) \<noteq> None) (find_sorted (products st)) docs"
    using rel
  proof (rule list_all2_mono)
    fix p y assume "optimized rt p = Some y"
    then show "doc_id (res_json y) = doc_id p
              \<and> name (res_json y) = name p
              \<and> description (res_json y) = description p
              \<and> price (res_json y) = json_price (price p)
              \<and> (\<forall>x. price p = Num x \<longrightarrow> price (res_json y) = JNumber x)
              \<and> category (res_json y) = category p
              \<and> isFeatured (res_json y) = isFeatured p
              \<and> createdAt (res_json y) = createdAt p
              \<and> updatedAt (res_json y) = updatedAt p
              \<and> public_id (image_doc (res_json y)) = public_id (image_doc p)
              \<and> url (image_doc (res_json y)) = url (image_doc p)
              \<and> cdn_url (image_doc (res_json y))
                  = cloudinary_url rt (public_id (image_doc p))
                      \<lparr>fetch_format = ''auto'', quality = ''auto''\<rparr>
              \<and> cdn_url (image_doc (res_json y)) \<noteq> None"
      by (auto simp: optimized_def res_json_def auto_options_def split: option.splits)
  qed
  then have "list_all2 (\<lambda>p j.
                doc_id j = doc_id p
              \<and> name j = name p
              \<and> description j = description p
              \<and> price j = json_price (price p)
              \<and> (\<forall>x. price p = Num x \<longrightarrow> price j = JNumber x)
              \<and> category j = category p
              \<and> isFeatured j = isFeatured p
              \<and> createdAt j = createdAt p
              \<and> updatedAt j = updatedAt p
              \<and> public_id (image_doc j) = public_id (image_doc p)
              \<and> url (image_doc j) = url (image_doc p)
              \<and> cdn_url (image_doc j)
                  = cloudinary_url rt (public_id (image_doc p))
                      \<lparr>fetch_format = ''auto'', quality = ''auto''\<rparr>
              \<and> cdn_url (image_doc j) \<noteq> None) (find_sorted (products st)) out"
    unfolding o by (simp only: list_all2_map2)
  moreover have "mset (find_sorted (products st)) = mset (products st)"
    by (rule find_sorted_mset)
  ultimately show ?thesis using s by blast
qed

theorem list_frame_witness:
  "get_products rt0 lio0 \<lparr>products = [old_doc], streamed = []\<rparr>
     = (\<lparr>status = 200, json = ProductList [res_json old_out]\<rparr>,
        \<lparr>products = [old_doc], streamed = []\<rparr>)
   \<and> name (res_json old_out) = ''Honey''
   \<and> price (res_json old_out) = JNumber 80
   \<and> public_id (image_doc (res_json old_out)) = ''jaggery-products/old''
   \<and> url (image_doc (res_json old_out)) = ''https://res.cloudinary.com/demo/old.webp''
   \<and> cdn_url (image_doc (res_json old_out))
       = cloudinary_url rt0 ''jaggery-products/old'' \<lparr>fetch_format = ''auto'', quality = ''auto''\<rparr>
   \<and> cdn_url (image_doc (res_json old_out)) \<noteq> cdn_url (image_doc old_doc)"
proof -
  have s: "find_sorted [old_doc] = [old_doc]"
    by (simp add: find_sorted_def)
  have g: "get_products rt0 lio0 \<lparr>products = [old_doc], streamed = []\<rparr>
     = (\<lparr>status = 200, json = ProductList [res_json old_out]\<rparr>,
        \<lparr>products = [old_doc], streamed = []\<rparr>)"
    by (simp add: get_products_def lio0_def s optimized_old_doc)
  have n: "name old_doc = ''Honey''" "price old_doc = Num 80"
     "public_id (image_doc old_doc) = ''jaggery-products/old''"
     "url (image_doc old_doc) = ''https://res.cloudinary.com/demo/old.webp''"
     "cdn_url (image_doc old_doc) = Some ''stale''"
    by (simp_all add: old_doc_def)
  have u: "cdn_url (image_doc (res_json old_out)) \<noteq> Some ''stale''"
    by (simp add: image_res_json old_out_def)
  from list_frame [OF g] obtain qs
    where m: "mset qs = mset (products \<lparr>products = [old_doc], streamed = []\<rparr>)"
      and f: "list_all2 (\<lambda>p j.
                name j = name p
              \<and> (\<forall>x. price p = Num x \<longrightarrow> price j = JNumber x)
              \<and> public_id (image_doc j) = public_id (image_doc p)
              \<and> url (image_doc j) = url (image_doc p)
              \<and> cdn_url (image_doc j)
                  = cloudinary_url rt0 (public_id (image_doc p))
                      \<lparr>fetch_format = ''auto'', quality = ''auto''\<rparr>) qs [res_json old_out]"
    by (blast intro: list_all2_mono)
  from m have "qs = [old_doc]" by simp
  with f g n u show ?thesis by simp
qed

end
